theory Spec2Isabelle
  imports Main "HOL-Library.Sublist"
begin

section \<open>Values\<close>

text \<open>
  The three request slices (\<open>req.body\<close>, \<open>req.query\<close>, \<open>req.params\<close>) and every
  response body are JSON values. An object is an association list, so that the order of
  its keys (the order \<open>JSON.stringify\<close> prints them in) is part of the value. Numbers
  are integers here; the descriptors of \<open>index.ts\<close> only ever compare strings.
\<close>

datatype json =
    JNull
  | JBool bool
  | JNum int
  | JStr string
  | JArr "json list"
  | JObj "(string \<times> json) list"

text \<open>
  Whether a value has a key, and the property under it. A value that is not an object
  has none of the keys that \<open>index.ts\<close> declares (\<open>email\<close>, \<open>foo\<close>, \<open>id\<close>). The keys
  of a parsed object are distinct, so the first entry under a key is the only one.
\<close>

fun lookup :: "json \<Rightarrow> string \<Rightarrow> json option" where
  "lookup (JObj kvs) k = map_of kvs k"
| "lookup _ k = None"

text \<open>The name of the observed type, as the failure messages print it.\<close>

fun typeOf :: "json \<Rightarrow> string" where
  "typeOf JNull = ''null''"
| "typeOf (JBool b) = ''boolean''"
| "typeOf (JNum n) = ''number''"
| "typeOf (JStr s) = ''string''"
| "typeOf (JArr xs) = ''array''"
| "typeOf (JObj kvs) = ''object''"

text \<open>Primitive values, the arguments of \<open>RT.Literal\<close>.\<close>

datatype prim = PNull | PBool bool | PNum int | PStr string

fun prim_of :: "json \<Rightarrow> prim option" where
  "prim_of JNull = Some PNull"
| "prim_of (JBool b) = Some (PBool b)"
| "prim_of (JNum n) = Some (PNum n)"
| "prim_of (JStr s) = Some (PStr s)"
| "prim_of (JArr xs) = None"
| "prim_of (JObj kvs) = None"

fun family :: "prim \<Rightarrow> string" where
  "family PNull = ''null''"
| "family (PBool b) = ''boolean''"
| "family (PNum n) = ''number''"
| "family (PStr s) = ''string''"

fun show_nat :: "nat \<Rightarrow> string" where
  "show_nat n =
     (if n < 10 then [char_of (48 + n)]
      else show_nat (n div 10) @ [char_of (48 + n mod 10)])"

declare show_nat.simps [simp del]

definition show_int :: "int \<Rightarrow> string" where
  "show_int i = (if i < 0 then CHR ''-'' # show_nat (nat (- i)) else show_nat (nat i))"

text \<open>\<open>String(value)\<close> of a primitive.\<close>

fun text_of :: "prim \<Rightarrow> string" where
  "text_of PNull = ''null''"
| "text_of (PBool b) = (if b then ''true'' else ''false'')"
| "text_of (PNum n) = show_int n"
| "text_of (PStr s) = s"

text \<open>A text between double quotes, and a text between backticks.\<close>

definition quoted :: "string \<Rightarrow> string" where
  "quoted s = CHR 0x22 # s @ [CHR 0x22]"

definition ticked :: "string \<Rightarrow> string" where
  "ticked s = CHR 0x60 # s @ [CHR 0x60]"


section \<open>Descriptors and the validation engine\<close>

text \<open>
  \<open>index.ts\<close> builds its descriptors with \<open>RT.Record\<close>, \<open>RT.Literal\<close>, \<open>RT.Union\<close> and
  \<open>RT.Guard\<close> of the runtypes library. A record keeps its fields in declaration
  order. A guard carries its predicate; \<open>None\<close> is a predicate that threw.
\<close>

datatype descriptor =
    Record "(string \<times> descriptor) list"
  | Literal prim
  | Union "descriptor list"
  | Guard "json \<Rightarrow> bool option"

text \<open>
  The outcome of a validation: the value, now known to conform, or the details of the
  failure, a mapping from field name (or the empty name, outside any record) to reason.
\<close>

datatype outcome = Valid json | Invalid "(string \<times> string) list"

fun is_Valid :: "outcome \<Rightarrow> bool" where
  "is_Valid (Valid x) = True"
| "is_Valid (Invalid ds) = False"

text \<open>
  Modelled from the spec: the summary of a descriptor that the failure messages print
  (runtypes' \<open>show\<close>, a library that is not part of the sources). Section 4.1 and the
  responses recorded in \<open>README.md\<close> fix three cases: a guard is \<open>unknown\<close>, a string
  literal is its text in double quotes, a union is its alternatives joined by \<open>|\<close>.
  The summary of a record is given nowhere; it is printed as \<open>{ key: summary; }\<close> here
  and no result below depends on it.
\<close>

fun summary :: "descriptor \<Rightarrow> string"
  and summary_alts :: "descriptor list \<Rightarrow> string"
  and summary_fields :: "(string \<times> descriptor) list \<Rightarrow> string"
where
  "summary (Guard p) = ''unknown''"
| "summary (Literal l) = (case l of PStr s \<Rightarrow> quoted s | _ \<Rightarrow> text_of l)"
| "summary (Union alts) = summary_alts alts"
| "summary (Record fields) = ''{'' @ summary_fields fields @ '' }''"
| "summary_alts [] = []"
| "summary_alts [d] = summary d"
| "summary_alts (d # e # ds) = summary d @ '' | '' @ summary_alts (e # ds)"
| "summary_fields [] = []"
| "summary_fields ((k, d) # rest) = '' '' @ k @ '': '' @ summary d @ '';'' @ summary_fields rest"

text \<open>
  A failure of a sub-descriptor is attributed to the record's field; a failure that
  already names a field of a nested record keeps that innermost name (section 4.1: no
  dotted paths).
\<close>

definition attribute :: "string \<Rightarrow> (string \<times> string) list \<Rightarrow> (string \<times> string) list" where
  "attribute k ds = map (\<lambda>(f, r). (if f = [] then k else f, r)) ds"

text \<open>
  Modelled from the spec: \<open>validate(descriptor, value)\<close> of section 4.1, the runtypes
  engine behind \<open>Runtype.check\<close>, which is not part of the sources.
  \<^item> \<open>Record\<close>: the declared fields in declaration order; a missing key fails at once
    with \<open>Expected <summary>, but was missing\<close>; a failing field fails at once with its
    reason; on success the value restricted to the declared fields.
  \<^item> \<open>Literal\<close>: equality of primitives; a mismatch within the same type family gives
    \<open>Expected literal e, but was a\<close>, both between backticks; a value of another type gives a reason that
    names the observed type.
  \<^item> \<open>Union\<close>: the alternatives in order, the first success wins. When all fail the
    reason is the one recorded in \<open>README.md\<close> and in scenario 6 of section 8 for
    \<open>/bar/random\<close>: \<open>Expected <summary of the union>, but was <observed type>\<close>.
  \<^item> \<open>Guard\<close>: the predicate; anything but a returned \<open>true\<close>, a thrown fault
    included, fails with \<open>Failed constraint check for unknown\<close>.
\<close>

fun validate :: "descriptor \<Rightarrow> json \<Rightarrow> outcome"
  and validate_fields :: "(string \<times> descriptor) list \<Rightarrow> json \<Rightarrow> (string \<times> string) list + (string \<times> json) list"
  and first_match :: "descriptor list \<Rightarrow> json \<Rightarrow> json option"
where
  "validate (Record fields) x =
     (case validate_fields fields x of
        Inl ds \<Rightarrow> Invalid ds
      | Inr kvs \<Rightarrow> Valid (JObj kvs))"
| "validate (Literal l) x =
     (case prim_of x of
        Some a \<Rightarrow>
          if a = l then Valid x
          else if family a = family l then
            Invalid [([], ''Expected literal '' @ ticked (text_of l) @ '', but was '' @ ticked (text_of a))]
          else Invalid [([], ''Expected '' @ summary (Literal l) @ '', but was '' @ typeOf x)]
      | None \<Rightarrow> Invalid [([], ''Expected '' @ summary (Literal l) @ '', but was '' @ typeOf x)])"
| "validate (Union alts) x =
     (case first_match alts x of
        Some y \<Rightarrow> Valid y
      | None \<Rightarrow> Invalid [([], ''Expected '' @ summary (Union alts) @ '', but was '' @ typeOf x)])"
| "validate (Guard p) x =
     (case p x of
        Some True \<Rightarrow> Valid x
      | _ \<Rightarrow> Invalid [([], ''Failed constraint check for unknown'')])"
| "validate_fields [] x = Inr []"
| "validate_fields ((k, d) # rest) x =
     (case lookup x k of
        None \<Rightarrow> Inl [(k, ''Expected '' @ summary d @ '', but was missing'')]
      | Some v \<Rightarrow>
          (case validate d v of
             Invalid ds \<Rightarrow> Inl (attribute k ds)
           | Valid v' \<Rightarrow>
               (case validate_fields rest x of
                  Inl ds \<Rightarrow> Inl ds
                | Inr kvs \<Rightarrow> Inr ((k, v') # kvs))))"
| "first_match [] x = None"
| "first_match (d # ds) x =
     (case validate d x of
        Valid y \<Rightarrow> Some y
      | Invalid r \<Rightarrow> first_match ds x)"

text \<open>
  Modelled from the spec: the error that \<open>Runtype.check\<close> throws (runtypes'
  \<open>ValidationError\<close>, not part of the sources) and its JSON form, the object that
  section 4.4 and \<open>README.md\<close> show inside the envelope.
\<close>

datatype error = ValidationError "(string \<times> string) list"

fun error_json :: "error \<Rightarrow> json" where
  "error_json (ValidationError ds) =
     JObj [(''name'', JStr ''ValidationError''),
           (''code'', JStr ''CONTENT_INCORRECT''),
           (''details'', JObj (map (\<lambda>(f, r). (f, JStr r)) ds))]"

text \<open>
  Modelled from the spec: \<open>runtype.check(x)\<close>, which returns the validated value or
  throws; the throw is the left injection.
\<close>

definition check :: "descriptor \<Rightarrow> json \<Rightarrow> error + json" where
  "check runtype x =
     (case validate runtype x of
        Valid y \<Rightarrow> Inr y
      | Invalid ds \<Rightarrow> Inl (ValidationError ds))"


section \<open>The descriptors of index.ts\<close>

text \<open>\<open>s.endsWith(suffix)\<close>.\<close>

definition endsWith :: "string \<Rightarrow> string \<Rightarrow> bool" where
  "endsWith s suf = (length suf \<le> length s \<and> drop (length s - length suf) s = suf)"

text \<open>\<open>typeof email === 'string' && email.endsWith('@gmail.com')\<close>.\<close>

fun isEmail :: "json \<Rightarrow> bool" where
  "isEmail (JStr email) = endsWith email ''@gmail.com''"
| "isEmail _ = False"

definition PayloadRuntype :: descriptor where
  "PayloadRuntype = Record [(''email'', Guard (\<lambda>email. Some (isEmail email)))]"

definition QueryParamRuntype :: descriptor where
  "QueryParamRuntype = Record [(''foo'', Literal (PStr ''bar''))]"

definition PathParamRuntype :: descriptor where
  "PathParamRuntype = Record [(''id'', Union [Literal (PStr ''1''), Literal (PStr ''2'')])]"


section \<open>Requests, responses and handlers\<close>

record request =
  body :: json
  query :: json
  params :: json

text \<open>A response: its status code and the body sent, if any.\<close>

record response =
  statusCode :: nat
  sent :: "json option"

text \<open>
  What a handler can touch: the request, the response, and the console, here the lines
  written while the request is served. A console line is the text before the value and
  the value that \<open>JSON.stringify\<close> prints after it.
\<close>

record world =
  req :: request
  res :: response
  console :: "(string \<times> json) list"

text \<open>\<open>res.status(code)\<close>, \<open>res.send(value)\<close> and \<open>res.json(value)\<close>.\<close>

definition res_status :: "nat \<Rightarrow> response \<Rightarrow> response" where
  "res_status code r = r\<lparr>statusCode := code\<rparr>"

definition res_send :: "json \<Rightarrow> response \<Rightarrow> response" where
  "res_send v r = r\<lparr>sent := Some v\<rparr>"

definition res_json :: "json \<Rightarrow> response \<Rightarrow> response" where
  "res_json v r = r\<lparr>sent := Some v\<rparr>"

text \<open>A handler either calls \<open>next()\<close> or ends the request-response cycle.\<close>

datatype signal = Next | End

type_synonym handler = "world \<Rightarrow> signal \<times> world"

definition payloadLogger :: "json \<Rightarrow> world \<Rightarrow> world" where
  "payloadLogger payload w = w\<lparr>console := console w @ [(''Received payload: '', payload)]\<rparr>"

definition queryLogger :: "json \<Rightarrow> world \<Rightarrow> world" where
  "queryLogger q w = w\<lparr>console := console w @ [(''Received query params: '', q)]\<rparr>"

definition paramsLogger :: "json \<Rightarrow> world \<Rightarrow> world" where
  "paramsLogger p w = w\<lparr>console := console w @ [(''Received path params: '', p)]\<rparr>"

text \<open>
  The three middleware creators. Each checks one slice; the value that \<open>check\<close>
  returns is dropped, and the request is not assigned to.
\<close>

definition bodyTypeParserMiddleware :: "descriptor \<Rightarrow> handler" where
  "bodyTypeParserMiddleware bodyParserRuntype w =
     (case check bodyParserRuntype (body (req w)) of
        Inr checked \<Rightarrow> (Next, w)
      | Inl err \<Rightarrow>
          (End, w\<lparr>res := res_send (JObj [(''error'', error_json err)]) (res_status 400 (res w))\<rparr>))"

definition queryTypeParserMiddleware :: "descriptor \<Rightarrow> handler" where
  "queryTypeParserMiddleware queryParserRuntype w =
     (case check queryParserRuntype (query (req w)) of
        Inr checked \<Rightarrow> (Next, w)
      | Inl err \<Rightarrow>
          (End, w\<lparr>res := res_send (JObj [(''error'', error_json err)]) (res_status 400 (res w))\<rparr>))"

definition pathParamsParserMiddleware :: "descriptor \<Rightarrow> handler" where
  "pathParamsParserMiddleware pathParamsParserRuntype w =
     (case check pathParamsParserRuntype (params (req w)) of
        Inr checked \<Rightarrow> (Next, w)
      | Inl err \<Rightarrow>
          (End, w\<lparr>res := res_send (JObj [(''error'', error_json err)]) (res_status 400 (res w))\<rparr>))"

text \<open>The last handler of \<open>/bar/:id\<close>: it reads the three slices off the request.\<close>

definition bar_handler :: handler where
  "bar_handler w =
     (let payload = body (req w);
          q = query (req w);
          p = params (req w);
          w1 = payloadLogger payload w;
          w2 = queryLogger q w1;
          w3 = paramsLogger p w2
      in (End, w3\<lparr>res := res_json (JObj [(''payload'', payload), (''query'', q), (''params'', p)]) (res w3)\<rparr>))"

text \<open>
  Modelled from the spec: how the router of Express (not part of the sources) runs the
  handlers attached to a route, section 4.3: strictly in the order attached, the next
  one only when the current one called \<open>next()\<close>. The result also counts the handlers
  that were invoked. Past the last handler Express leaves the route; the last handler
  of \<open>/bar/:id\<close> never calls \<open>next()\<close>, so the route does not get there.
\<close>

fun dispatch :: "handler list \<Rightarrow> world \<Rightarrow> nat \<times> world" where
  "dispatch [] w = (0, w)"
| "dispatch (h # hs) w =
     (case h w of
        (Next, w') \<Rightarrow> (case dispatch hs w' of (n, w'') \<Rightarrow> (Suc n, w''))
      | (End, w') \<Rightarrow> (Suc 0, w'))"

text \<open>A request arrives with a fresh response (status 200, nothing sent).\<close>

definition incoming :: "request \<Rightarrow> world" where
  "incoming rq = \<lparr>req = rq, res = \<lparr>statusCode = 200, sent = None\<rparr>, console = []\<rparr>"

text \<open>\<open>app.post('/bar/:id', ...)\<close>: body, then query, then path parameters, then the handler.\<close>

definition bar_stages :: "handler list" where
  "bar_stages =
     [bodyTypeParserMiddleware PayloadRuntype,
      queryTypeParserMiddleware QueryParamRuntype,
      pathParamsParserMiddleware PathParamRuntype,
      bar_handler]"

definition post_bar :: "request \<Rightarrow> nat \<times> world" where
  "post_bar rq = dispatch bar_stages (incoming rq)"

text \<open>The error envelope of a rejected request.\<close>

definition envelope :: "(string \<times> string) list \<Rightarrow> json" where
  "envelope ds =
     JObj [(''error'',
        JObj [(''name'', JStr ''ValidationError''),
              (''code'', JStr ''CONTENT_INCORRECT''),
              (''details'', JObj (map (\<lambda>(f, r). (f, JStr r)) ds))])]"

text \<open>The world after a stage rejected the request with the details \<open>ds\<close>.\<close>

definition rejected :: "(string \<times> string) list \<Rightarrow> world \<Rightarrow> world" where
  "rejected ds w = w\<lparr>res := \<lparr>statusCode = 400, sent = Some (envelope ds)\<rparr>\<rparr>"

text \<open>The world after the last handler of \<open>/bar/:id\<close> served the request \<open>rq\<close>.\<close>

definition accepted :: "request \<Rightarrow> world" where
  "accepted rq =
     \<lparr>req = rq,
      res = \<lparr>statusCode = 200,
             sent = Some (JObj [(''payload'', body rq), (''query'', query rq), (''params'', params rq)])\<rparr>,
      console = [(''Received payload: '', body rq),
                 (''Received query params: '', query rq),
                 (''Received path params: '', params rq)]\<rparr>"


section \<open>Stages and the route, step by step\<close>

lemma is_Valid_iff: "is_Valid r \<longleftrightarrow> (\<exists>y. r = Valid y)"
  by (cases r) auto

lemma body_stage:
  "bodyTypeParserMiddleware rt w =
     (case validate rt (body (req w)) of
        Valid y \<Rightarrow> (Next, w)
      | Invalid ds \<Rightarrow> (End, rejected ds w))"
  by (simp add: bodyTypeParserMiddleware_def check_def rejected_def envelope_def
      res_send_def res_status_def split: outcome.split)

lemma query_stage:
  "queryTypeParserMiddleware rt w =
     (case validate rt (query (req w)) of
        Valid y \<Rightarrow> (Next, w)
      | Invalid ds \<Rightarrow> (End, rejected ds w))"
  by (simp add: queryTypeParserMiddleware_def check_def rejected_def envelope_def
      res_send_def res_status_def split: outcome.split)

lemma params_stage:
  "pathParamsParserMiddleware rt w =
     (case validate rt (params (req w)) of
        Valid y \<Rightarrow> (Next, w)
      | Invalid ds \<Rightarrow> (End, rejected ds w))"
  by (simp add: pathParamsParserMiddleware_def check_def rejected_def envelope_def
      res_send_def res_status_def split: outcome.split)

lemma bar_handler_incoming: "bar_handler (incoming rq) = (End, accepted rq)"
  by (simp add: bar_handler_def incoming_def accepted_def payloadLogger_def queryLogger_def
      paramsLogger_def res_json_def Let_def)

lemma req_incoming: "req (incoming rq) = rq"
  by (simp add: incoming_def)

text \<open>A handler that ends the cycle hides every handler attached after it.\<close>

lemma dispatch_End: "h w = (End, w') \<Longrightarrow> dispatch (h # hs) w = (Suc 0, w')"
  by simp

text \<open>The route \<open>/bar/:id\<close> as one case distinction over the three validations.\<close>

lemma post_bar_cases:
  "post_bar rq =
     (case validate PayloadRuntype (body rq) of
        Invalid ds \<Rightarrow> (1, rejected ds (incoming rq))
      | Valid b \<Rightarrow>
          (case validate QueryParamRuntype (query rq) of
             Invalid ds \<Rightarrow> (2, rejected ds (incoming rq))
           | Valid q \<Rightarrow>
               (case validate PathParamRuntype (params rq) of
                  Invalid ds \<Rightarrow> (3, rejected ds (incoming rq))
                | Valid p \<Rightarrow> (4, accepted rq))))"
  by (simp add: post_bar_def bar_stages_def body_stage query_stage params_stage
      bar_handler_incoming req_incoming split: outcome.split)


section \<open>Facts about the validation engine\<close>

lemma attribute_length: "length (attribute k ds) = length ds"
  by (simp add: attribute_def)

text \<open>Every failure carries exactly one field with its reason.\<close>

lemma invalid_single:
  "validate d x = Invalid ds \<longrightarrow> length ds = 1"
  "validate_fields fs x = Inl ds \<longrightarrow> length ds = 1"
  "first_match alts x = None \<longrightarrow> True"
  by (induction d x and fs x and alts x arbitrary: ds and ds
      rule: validate_validate_fields_first_match.induct)
     (auto simp: attribute_length
       split: option.splits outcome.splits sum.splits if_splits bool.splits)

text \<open>
  A failing record splits its field list at the first field that fails: the fields
  before it are present and valid, and the details come from that field alone.
\<close>

lemma validate_fields_Inl:
  "validate_fields fs x = Inl ds \<Longrightarrow>
     \<exists>pre k d post. fs = pre @ (k, d) # post
       \<and> (\<forall>(k', d') \<in> set pre. \<exists>v. lookup x k' = Some v \<and> is_Valid (validate d' v))
       \<and> (case lookup x k of
            None \<Rightarrow> ds = [(k, ''Expected '' @ summary d @ '', but was missing'')]
          | Some v \<Rightarrow> \<exists>ds'. validate d v = Invalid ds' \<and> ds = attribute k ds')"
proof (induction fs arbitrary: ds)
  case Nil
  then show ?case by simp
next
  case (Cons f fs)
  obtain k d where f: "f = (k, d)" by (cases f)
  show ?case
  proof (cases "lookup x k")
    case None
    with Cons.prems f have "ds = [(k, ''Expected '' @ summary d @ '', but was missing'')]"
      by simp
    with None f have "f # fs = [] @ (k, d) # fs
        \<and> (\<forall>(k', d') \<in> set []. \<exists>v. lookup x k' = Some v \<and> is_Valid (validate d' v))
        \<and> (case lookup x k of
             None \<Rightarrow> ds = [(k, ''Expected '' @ summary d @ '', but was missing'')]
           | Some v \<Rightarrow> \<exists>ds'. validate d v = Invalid ds' \<and> ds = attribute k ds')"
      by simp
    then show ?thesis by blast
  next
    case (Some v)
    show ?thesis
    proof (cases "validate d v")
      case (Invalid ds')
      with Cons.prems f Some have "ds = attribute k ds'" by simp
      with Some Invalid f have "f # fs = [] @ (k, d) # fs
          \<and> (\<forall>(k', d') \<in> set []. \<exists>v. lookup x k' = Some v \<and> is_Valid (validate d' v))
          \<and> (case lookup x k of
               None \<Rightarrow> ds = [(k, ''Expected '' @ summary d @ '', but was missing'')]
             | Some v \<Rightarrow> \<exists>ds'. validate d v = Invalid ds' \<and> ds = attribute k ds')"
        by simp
      then show ?thesis by blast
    next
      case (Valid v')
      with Cons.prems f Some have "validate_fields fs x = Inl ds"
        by (simp split: sum.splits)
      from Cons.IH [OF this] obtain pre k2 d2 post where
        fs: "fs = pre @ (k2, d2) # post"
        and pre: "\<forall>(k', d') \<in> set pre. \<exists>v. lookup x k' = Some v \<and> is_Valid (validate d' v)"
        and at: "case lookup x k2 of
               None \<Rightarrow> ds = [(k2, ''Expected '' @ summary d2 @ '', but was missing'')]
             | Some v \<Rightarrow> \<exists>ds'. validate d2 v = Invalid ds' \<and> ds = attribute k2 ds'"
        by blast
      from fs f have "f # fs = ((k, d) # pre) @ (k2, d2) # post" by simp
      moreover from pre Some Valid
      have "\<forall>(k', d') \<in> set ((k, d) # pre). \<exists>v. lookup x k' = Some v \<and> is_Valid (validate d' v)"
        by simp
      ultimately show ?thesis using at by blast
    qed
  qed
qed

text \<open>A valid record yields exactly the declared keys, in declaration order.\<close>

lemma validate_fields_Inr:
  "validate_fields fs x = Inr kvs \<Longrightarrow>
     map fst kvs = map fst fs
       \<and> (\<forall>(k, d) \<in> set fs. \<exists>v. lookup x k = Some v \<and> is_Valid (validate d v))"
  by (induction fs arbitrary: kvs)
     (auto split: option.splits outcome.splits sum.splits)

lemma Payload_Invalid:
  "validate PayloadRuntype x = Invalid ds \<Longrightarrow> \<exists>r. ds = [(''email'', r)]"
  by (auto simp: PayloadRuntype_def attribute_def split: option.splits bool.splits if_splits)

lemma Query_Invalid:
  "validate QueryParamRuntype x = Invalid ds \<Longrightarrow> \<exists>r. ds = [(''foo'', r)]"
  by (auto simp: QueryParamRuntype_def attribute_def split: option.splits bool.splits if_splits)

lemma Path_Invalid:
  "validate PathParamRuntype x = Invalid ds \<Longrightarrow> \<exists>r. ds = [(''id'', r)]"
  by (auto simp: PathParamRuntype_def attribute_def split: option.splits bool.splits if_splits)

lemma endsWith_iff: "endsWith s suf \<longleftrightarrow> (\<exists>pre. s = pre @ suf)"
proof
  assume "endsWith s suf"
  then have "s = take (length s - length suf) s @ suf"
    by (metis append_take_drop_id endsWith_def)
  then show "\<exists>pre. s = pre @ suf" ..
next
  assume "\<exists>pre. s = pre @ suf"
  then show "endsWith s suf" by (auto simp: endsWith_def)
qed

lemma isEmail_iff: "isEmail x \<longleftrightarrow> (\<exists>local. x = JStr (local @ ''@gmail.com''))"
  by (cases x) (simp_all add: endsWith_iff)

lemma first_match_find:
  "first_match alts x =
     (case find (\<lambda>d. is_Valid (validate d x)) alts of
        None \<Rightarrow> None
      | Some d \<Rightarrow> (case validate d x of Valid y \<Rightarrow> Some y | Invalid ds \<Rightarrow> None))"
  by (induction alts) (auto split: outcome.splits)


section \<open>The claims\<close>

subsection \<open>C1: what the handler of a valid request puts out\<close>

text \<open>
  Claim C1, as stated, at a request whose body carries a field the descriptor does not
  declare: all three slices are valid, the body restricted to the declared fields is
  \<open>{email}\<close>, and yet the handler's output carries the undeclared field \<open>extra\<close>. The
  middleware drops what \<open>check\<close> returns and the handler reads \<open>req.body\<close>.
\<close>

theorem C1_excess_field_counterexample:
  "validate PayloadRuntype (JObj [(''email'', JStr ''test@gmail.com''), (''extra'', JStr ''x'')])
     = Valid (JObj [(''email'', JStr ''test@gmail.com'')])
   \<and> is_Valid (validate QueryParamRuntype (JObj [(''foo'', JStr ''bar'')]))
   \<and> is_Valid (validate PathParamRuntype (JObj [(''id'', JStr ''1'')]))
   \<and> sent (res (snd (post_bar
         \<lparr>body = JObj [(''email'', JStr ''test@gmail.com''), (''extra'', JStr ''x'')],
          query = JObj [(''foo'', JStr ''bar'')],
          params = JObj [(''id'', JStr ''1'')]\<rparr>)))
     = Some (JObj [(''payload'', JObj [(''email'', JStr ''test@gmail.com''), (''extra'', JStr ''x'')]),
                   (''query'', JObj [(''foo'', JStr ''bar'')]),
                   (''params'', JObj [(''id'', JStr ''1'')])])
   \<and> sent (res (snd (post_bar
         \<lparr>body = JObj [(''email'', JStr ''test@gmail.com''), (''extra'', JStr ''x'')],
          query = JObj [(''foo'', JStr ''bar'')],
          params = JObj [(''id'', JStr ''1'')]\<rparr>)))
     \<noteq> Some (JObj [(''payload'', JObj [(''email'', JStr ''test@gmail.com'')]),
                   (''query'', JObj [(''foo'', JStr ''bar'')]),
                   (''params'', JObj [(''id'', JStr ''1'')])])"
  by (simp add: post_bar_cases accepted_def PayloadRuntype_def QueryParamRuntype_def
      PathParamRuntype_def endsWith_def)

text \<open>
  Claim C1, amended: for every request whose body, query and path parameters all satisfy
  their descriptors, all four handlers run (the three stages pass and the last handler
  answers), the response has status 200 and its body is
  \<open>{payload: body, query: query, params: params}\<close> with the three slices exactly as they
  came in, undeclared fields included; the request itself is unchanged.
\<close>

theorem C1_handler_output_is_input:
  assumes "is_Valid (validate PayloadRuntype (body rq))"
    and "is_Valid (validate QueryParamRuntype (query rq))"
    and "is_Valid (validate PathParamRuntype (params rq))"
  shows "fst (post_bar rq) = 4
    \<and> res (snd (post_bar rq)) =
        \<lparr>statusCode = 200,
         sent = Some (JObj [(''payload'', body rq), (''query'', query rq), (''params'', params rq)])\<rparr>
    \<and> req (snd (post_bar rq)) = rq"
  using assms by (auto simp: post_bar_cases accepted_def is_Valid_iff)

text \<open>Claim C1, amended, at a request with undeclared fields in its body and its query.\<close>

theorem C1_handler_output_is_input_witness:
  "is_Valid (validate PayloadRuntype (JObj [(''email'', JStr ''a@gmail.com''), (''admin'', JBool True)]))
   \<and> is_Valid (validate QueryParamRuntype (JObj [(''foo'', JStr ''bar''), (''page'', JStr ''7'')]))
   \<and> is_Valid (validate PathParamRuntype (JObj [(''id'', JStr ''2'')]))
   \<and> res (snd (post_bar
         \<lparr>body = JObj [(''email'', JStr ''a@gmail.com''), (''admin'', JBool True)],
          query = JObj [(''foo'', JStr ''bar''), (''page'', JStr ''7'')],
          params = JObj [(''id'', JStr ''2'')]\<rparr>))
     = \<lparr>statusCode = 200,
        sent = Some (JObj [(''payload'', JObj [(''email'', JStr ''a@gmail.com''), (''admin'', JBool True)]),
                           (''query'', JObj [(''foo'', JStr ''bar''), (''page'', JStr ''7'')]),
                           (''params'', JObj [(''id'', JStr ''2'')])])\<rparr>"
proof -
  let ?rq = "\<lparr>body = JObj [(''email'', JStr ''a@gmail.com''), (''admin'', JBool True)],
          query = JObj [(''foo'', JStr ''bar''), (''page'', JStr ''7'')],
          params = JObj [(''id'', JStr ''2'')]\<rparr>"
  have b: "is_Valid (validate PayloadRuntype (body ?rq))"
    by (simp add: PayloadRuntype_def endsWith_def)
  have q: "is_Valid (validate QueryParamRuntype (query ?rq))"
    by (simp add: QueryParamRuntype_def)
  have p: "is_Valid (validate PathParamRuntype (params ?rq))"
    by (simp add: PathParamRuntype_def)
  from C1_handler_output_is_input [OF b q p] b q p show ?thesis by simp
qed


subsection \<open>C2: what a stage writes\<close>

text \<open>
  Claim C2, as stated, at a body with an undeclared field: validation succeeds with the
  restricted value \<open>{email}\<close>, the stage calls \<open>next()\<close>, and the body in the request
  is still the one that came in, not the restricted value.
\<close>

theorem C2_no_write_back_counterexample:
  "validate PayloadRuntype (JObj [(''email'', JStr ''test@gmail.com''), (''extra'', JStr ''x'')])
     = Valid (JObj [(''email'', JStr ''test@gmail.com'')])
   \<and> fst (bodyTypeParserMiddleware PayloadRuntype (incoming
         \<lparr>body = JObj [(''email'', JStr ''test@gmail.com''), (''extra'', JStr ''x'')],
          query = JObj [], params = JObj []\<rparr>)) = Next
   \<and> body (req (snd (bodyTypeParserMiddleware PayloadRuntype (incoming
         \<lparr>body = JObj [(''email'', JStr ''test@gmail.com''), (''extra'', JStr ''x'')],
          query = JObj [], params = JObj []\<rparr>))))
     = JObj [(''email'', JStr ''test@gmail.com''), (''extra'', JStr ''x'')]
   \<and> body (req (snd (bodyTypeParserMiddleware PayloadRuntype (incoming
         \<lparr>body = JObj [(''email'', JStr ''test@gmail.com''), (''extra'', JStr ''x'')],
          query = JObj [], params = JObj []\<rparr>))))
     \<noteq> JObj [(''email'', JStr ''test@gmail.com'')]"
  by (simp add: body_stage req_incoming PayloadRuntype_def endsWith_def)

text \<open>
  Claim C2, amended: for every stage invocation, with any descriptor, the request is left
  as it was, whether validation succeeds or fails. On success the stage changes nothing
  at all and calls \<open>next()\<close> (the validated value is dropped); on failure it ends the
  cycle and only sets the response, to status 400 with the error envelope.
\<close>

theorem C2_stage_never_writes_request:
  "bodyTypeParserMiddleware rt w =
     (case validate rt (body (req w)) of
        Valid y \<Rightarrow> (Next, w)
      | Invalid ds \<Rightarrow> (End, w\<lparr>res := \<lparr>statusCode = 400, sent = Some (envelope ds)\<rparr>\<rparr>))
   \<and> queryTypeParserMiddleware rt w =
     (case validate rt (query (req w)) of
        Valid y \<Rightarrow> (Next, w)
      | Invalid ds \<Rightarrow> (End, w\<lparr>res := \<lparr>statusCode = 400, sent = Some (envelope ds)\<rparr>\<rparr>))
   \<and> pathParamsParserMiddleware rt w =
     (case validate rt (params (req w)) of
        Valid y \<Rightarrow> (Next, w)
      | Invalid ds \<Rightarrow> (End, w\<lparr>res := \<lparr>statusCode = 400, sent = Some (envelope ds)\<rparr>\<rparr>))
   \<and> req (snd (bodyTypeParserMiddleware rt w)) = req w
   \<and> req (snd (queryTypeParserMiddleware rt w)) = req w
   \<and> req (snd (pathParamsParserMiddleware rt w)) = req w"
  by (simp add: body_stage query_stage params_stage rejected_def split: outcome.split)


subsection \<open>C3: the response of a rejected request\<close>

text \<open>
  Claim C3: for every request to \<open>/bar/:id\<close> that some stage rejects (not all three
  slices are valid), the response has status 400 and its body is exactly the envelope
  \<open>{error: {name: ValidationError, code: CONTENT_INCORRECT, details}}\<close>, where
  \<open>details\<close> has exactly one key and is the details of one single stage, the one at
  which the run of the handlers stopped.
\<close>

theorem C3_rejection_envelope:
  assumes "\<not> (is_Valid (validate PayloadRuntype (body rq))
            \<and> is_Valid (validate QueryParamRuntype (query rq))
            \<and> is_Valid (validate PathParamRuntype (params rq)))"
  shows "\<exists>field reason.
           res (snd (post_bar rq)) = \<lparr>statusCode = 400, sent = Some (envelope [(field, reason)])\<rparr>
         \<and> (fst (post_bar rq) = 1 \<and> validate PayloadRuntype (body rq) = Invalid [(field, reason)]
            \<or> fst (post_bar rq) = 2 \<and> validate QueryParamRuntype (query rq) = Invalid [(field, reason)]
            \<or> fst (post_bar rq) = 3 \<and> validate PathParamRuntype (params rq) = Invalid [(field, reason)])"
proof (cases "validate PayloadRuntype (body rq)")
  case (Invalid ds)
  with Payload_Invalid obtain r where "ds = [(''email'', r)]" by blast
  with Invalid show ?thesis by (simp add: post_bar_cases rejected_def)
next
  case b: (Valid b)
  show ?thesis
  proof (cases "validate QueryParamRuntype (query rq)")
    case (Invalid ds)
    with Query_Invalid obtain r where "ds = [(''foo'', r)]" by blast
    with Invalid b show ?thesis by (simp add: post_bar_cases rejected_def)
  next
    case q: (Valid q)
    show ?thesis
    proof (cases "validate PathParamRuntype (params rq)")
      case (Invalid ds)
      with Path_Invalid obtain r where "ds = [(''id'', r)]" by blast
      with Invalid b q show ?thesis by (simp add: post_bar_cases rejected_def)
    next
      case (Valid p)
      with b q assms show ?thesis by simp
    qed
  qed
qed

text \<open>Claim C3 at the request of the README with \<open>foo=random\<close>.\<close>

theorem C3_rejection_envelope_witness:
  "\<not> (is_Valid (validate PayloadRuntype (JObj [(''email'', JStr ''test@gmail.com'')]))
       \<and> is_Valid (validate QueryParamRuntype (JObj [(''foo'', JStr ''random'')]))
       \<and> is_Valid (validate PathParamRuntype (JObj [(''id'', JStr ''1'')])))
   \<and> res (snd (post_bar
         \<lparr>body = JObj [(''email'', JStr ''test@gmail.com'')],
          query = JObj [(''foo'', JStr ''random'')],
          params = JObj [(''id'', JStr ''1'')]\<rparr>))
     = \<lparr>statusCode = 400,
        sent = Some (envelope
          [(''foo'', ''Expected literal '' @ ticked ''bar'' @ '', but was '' @ ticked ''random'')])\<rparr>"
proof -
  let ?rq = "\<lparr>body = JObj [(''email'', JStr ''test@gmail.com'')],
          query = JObj [(''foo'', JStr ''random'')],
          params = JObj [(''id'', JStr ''1'')]\<rparr>"
  have q: "validate QueryParamRuntype (query ?rq)
      = Invalid [(''foo'', ''Expected literal '' @ ticked ''bar'' @ '', but was '' @ ticked ''random'')]"
    by (simp add: QueryParamRuntype_def attribute_def)
  have b: "is_Valid (validate PayloadRuntype (body ?rq))"
    by (simp add: PayloadRuntype_def endsWith_def)
  have p: "is_Valid (validate PathParamRuntype (params ?rq))"
    by (simp add: PathParamRuntype_def)
  have h: "\<not> (is_Valid (validate PayloadRuntype (body ?rq))
       \<and> is_Valid (validate QueryParamRuntype (query ?rq))
       \<and> is_Valid (validate PathParamRuntype (params ?rq)))"
    using q by simp
  from C3_rejection_envelope [OF h] obtain field reason where
    r: "res (snd (post_bar ?rq)) = \<lparr>statusCode = 400, sent = Some (envelope [(field, reason)])\<rparr>"
    and s: "fst (post_bar ?rq) = 1 \<and> validate PayloadRuntype (body ?rq) = Invalid [(field, reason)]
          \<or> fst (post_bar ?rq) = 2 \<and> validate QueryParamRuntype (query ?rq) = Invalid [(field, reason)]
          \<or> fst (post_bar ?rq) = 3 \<and> validate PathParamRuntype (params ?rq) = Invalid [(field, reason)]"
    by blast
  from s b p q have "[(field, reason)]
      = [(''foo'', ''Expected literal '' @ ticked ''bar'' @ '', but was '' @ ticked ''random'')]"
    by (auto simp: is_Valid_iff)
  with r h show ?thesis by simp
qed


subsection \<open>C4: the earliest failing stage decides\<close>

text \<open>
  Claim C4: on \<open>/bar/:id\<close>, a failing body stage decides the response whatever the
  query and the path parameters are, and only one handler is invoked (the same holds
  with any handlers whatever attached after the body stage); with a valid body
  a failing query stage decides it whatever the path parameters are, and two handlers
  are invoked; with a valid body and query a failing path stage decides it, and three
  are invoked. The last handler is reached, and its console lines appear, only when all
  three slices are valid.
\<close>

theorem C4_earliest_failing_stage_wins:
  "(validate PayloadRuntype (body rq) = Invalid ds \<longrightarrow>
      post_bar rq = (1, incoming rq\<lparr>res := \<lparr>statusCode = 400, sent = Some (envelope ds)\<rparr>\<rparr>)
      \<and> dispatch (bodyTypeParserMiddleware PayloadRuntype # later) (incoming rq)
          = (1, incoming rq\<lparr>res := \<lparr>statusCode = 400, sent = Some (envelope ds)\<rparr>\<rparr>))
   \<and> (is_Valid (validate PayloadRuntype (body rq))
      \<and> validate QueryParamRuntype (query rq) = Invalid ds \<longrightarrow>
      post_bar rq = (2, incoming rq\<lparr>res := \<lparr>statusCode = 400, sent = Some (envelope ds)\<rparr>\<rparr>))
   \<and> (is_Valid (validate PayloadRuntype (body rq))
      \<and> is_Valid (validate QueryParamRuntype (query rq))
      \<and> validate PathParamRuntype (params rq) = Invalid ds \<longrightarrow>
      post_bar rq = (3, incoming rq\<lparr>res := \<lparr>statusCode = 400, sent = Some (envelope ds)\<rparr>\<rparr>))
   \<and> (fst (post_bar rq) = 4 \<or> console (snd (post_bar rq)) \<noteq> [] \<longrightarrow>
      is_Valid (validate PayloadRuntype (body rq))
      \<and> is_Valid (validate QueryParamRuntype (query rq))
      \<and> is_Valid (validate PathParamRuntype (params rq)))"
  by (auto simp: post_bar_cases body_stage rejected_def incoming_def is_Valid_iff
      split: outcome.splits)

text \<open>
  Claim C4 at a request whose three slices are all invalid, where only the body stage
  runs and the response carries the body's error, and at the same request with a valid
  body, where the query stage decides and the path stage is not reached.
\<close>

theorem C4_earliest_failing_stage_wins_witness:
  "validate PayloadRuntype (JObj [(''email'', JStr ''test@random.com'')])
     = Invalid [(''email'', ''Failed constraint check for unknown'')]
   \<and> is_Valid (validate PayloadRuntype (JObj [(''email'', JStr ''test@gmail.com'')]))
   \<and> validate QueryParamRuntype (JObj [(''random'', JStr ''bar'')])
     = Invalid [(''foo'', ''Expected '' @ quoted ''bar'' @ '', but was missing'')]
   \<and> \<not> is_Valid (validate PathParamRuntype (JObj [(''id'', JStr ''random'')]))
   \<and> post_bar
       \<lparr>body = JObj [(''email'', JStr ''test@random.com'')],
        query = JObj [(''random'', JStr ''bar'')],
        params = JObj [(''id'', JStr ''random'')]\<rparr>
     = (1, \<lparr>req = \<lparr>body = JObj [(''email'', JStr ''test@random.com'')],
                    query = JObj [(''random'', JStr ''bar'')],
                    params = JObj [(''id'', JStr ''random'')]\<rparr>,
            res = \<lparr>statusCode = 400,
                   sent = Some (envelope [(''email'', ''Failed constraint check for unknown'')])\<rparr>,
            console = []\<rparr>)
   \<and> post_bar
       \<lparr>body = JObj [(''email'', JStr ''test@gmail.com'')],
        query = JObj [(''random'', JStr ''bar'')],
        params = JObj [(''id'', JStr ''random'')]\<rparr>
     = (2, \<lparr>req = \<lparr>body = JObj [(''email'', JStr ''test@gmail.com'')],
                    query = JObj [(''random'', JStr ''bar'')],
                    params = JObj [(''id'', JStr ''random'')]\<rparr>,
            res = \<lparr>statusCode = 400,
                   sent = Some (envelope
                     [(''foo'', ''Expected '' @ quoted ''bar'' @ '', but was missing'')])\<rparr>,
            console = []\<rparr>)"
proof -
  let ?bad = "JObj [(''email'', JStr ''test@random.com'')]"
  let ?good = "JObj [(''email'', JStr ''test@gmail.com'')]"
  let ?q = "JObj [(''random'', JStr ''bar'')]"
  let ?p = "JObj [(''id'', JStr ''random'')]"
  have b: "validate PayloadRuntype ?bad
      = Invalid [(''email'', ''Failed constraint check for unknown'')]"
    by (simp add: PayloadRuntype_def endsWith_def attribute_def)
  have g: "is_Valid (validate PayloadRuntype ?good)"
    by (simp add: PayloadRuntype_def endsWith_def)
  have q: "validate QueryParamRuntype ?q
      = Invalid [(''foo'', ''Expected '' @ quoted ''bar'' @ '', but was missing'')]"
    by (simp add: QueryParamRuntype_def)
  have p: "\<not> is_Valid (validate PathParamRuntype ?p)"
    by (simp add: PathParamRuntype_def)
  from C4_earliest_failing_stage_wins
    [of "\<lparr>body = ?bad, query = ?q, params = ?p\<rparr>"
        "[(''email'', ''Failed constraint check for unknown'')]"] b
  have one: "post_bar \<lparr>body = ?bad, query = ?q, params = ?p\<rparr>
      = (1, incoming \<lparr>body = ?bad, query = ?q, params = ?p\<rparr>\<lparr>res := \<lparr>statusCode = 400,
          sent = Some (envelope [(''email'', ''Failed constraint check for unknown'')])\<rparr>\<rparr>)"
    by simp
  from C4_earliest_failing_stage_wins
    [of "\<lparr>body = ?good, query = ?q, params = ?p\<rparr>"
        "[(''foo'', ''Expected '' @ quoted ''bar'' @ '', but was missing'')]"] g q
  have two: "post_bar \<lparr>body = ?good, query = ?q, params = ?p\<rparr>
      = (2, incoming \<lparr>body = ?good, query = ?q, params = ?p\<rparr>\<lparr>res := \<lparr>statusCode = 400,
          sent = Some (envelope
            [(''foo'', ''Expected '' @ quoted ''bar'' @ '', but was missing'')])\<rparr>\<rparr>)"
    by simp
  from b g q p one two show ?thesis by (simp add: incoming_def)
qed


subsection \<open>C5: a record stops at its first failing field\<close>

text \<open>
  Claim C5: whenever a record descriptor rejects an input, its field list splits at one
  field such that every field declared before it is present and valid, the details
  hold exactly one entry, and that entry comes from this field alone: if the input lacks
  the key, the entry is the field with the reason
  \<open>Expected <summary of the sub-descriptor>, but was missing\<close>; otherwise it is the
  failure of the sub-descriptor attributed to the field. The fields declared after it
  play no part.
\<close>

theorem C5_record_first_failing_field:
  assumes "validate (Record fs) x = Invalid ds"
  shows "\<exists>pre k d post.
           fs = pre @ (k, d) # post
         \<and> (\<forall>(k', d') \<in> set pre. \<exists>v. lookup x k' = Some v \<and> is_Valid (validate d' v))
         \<and> length ds = 1
         \<and> (case lookup x k of
              None \<Rightarrow> ds = [(k, ''Expected '' @ summary d @ '', but was missing'')]
            | Some v \<Rightarrow> \<exists>ds'. validate d v = Invalid ds' \<and> ds = attribute k ds')"
proof -
  from assms have inl: "validate_fields fs x = Inl ds"
    by (simp split: sum.splits)
  from invalid_single(1) assms have "length ds = 1" by blast
  with validate_fields_Inl [OF inl] show ?thesis by blast
qed

text \<open>Claim C5 at a record of three fields and an input that lacks the second.\<close>

theorem C5_record_first_failing_field_witness:
  "validate (Record [(''a'', Literal (PStr ''x'')), (''b'', Guard (\<lambda>v. Some True)), (''c'', Literal (PNum 1))])
       (JObj [(''a'', JStr ''x''), (''c'', JNum 2)])
     = Invalid [(''b'', ''Expected unknown, but was missing'')]
   \<and> (\<exists>pre k d post.
         [(''a'', Literal (PStr ''x'')), (''b'', Guard (\<lambda>v. Some True)), (''c'', Literal (PNum 1))]
           = pre @ (k, d) # post
       \<and> (\<forall>(k', d') \<in> set pre. \<exists>v. lookup (JObj [(''a'', JStr ''x''), (''c'', JNum 2)]) k' = Some v
             \<and> is_Valid (validate d' v))
       \<and> length [(''b'', ''Expected unknown, but was missing'')] = 1
       \<and> (case lookup (JObj [(''a'', JStr ''x''), (''c'', JNum 2)]) k of
            None \<Rightarrow> [(''b'', ''Expected unknown, but was missing'')]
                     = [(k, ''Expected '' @ summary d @ '', but was missing'')]
          | Some v \<Rightarrow> \<exists>ds'. validate d v = Invalid ds'
                     \<and> [(''b'', ''Expected unknown, but was missing'')] = attribute k ds'))"
proof -
  have h: "validate (Record [(''a'', Literal (PStr ''x'')), (''b'', Guard (\<lambda>v. Some True)), (''c'', Literal (PNum 1))])
       (JObj [(''a'', JStr ''x''), (''c'', JNum 2)])
     = Invalid [(''b'', ''Expected unknown, but was missing'')]"
    by simp
  from C5_record_first_failing_field [OF h] h show ?thesis by blast
qed


subsection \<open>C6: unions\<close>

text \<open>
  Claim C6, as stated, at the union of the path parameter and the input \<open>random\<close>: the
  reason reported is the one of the union as a whole, the one the README records, and
  it differs from the failure of the first alternative.
\<close>

theorem C6_union_reason_counterexample:
  "validate (Union [Literal (PStr ''1''), Literal (PStr ''2'')]) (JStr ''random'')
     = Invalid [([], ''Expected '' @ quoted ''1'' @ '' | '' @ quoted ''2'' @ '', but was string'')]
   \<and> validate (Literal (PStr ''1'')) (JStr ''random'')
     = Invalid [([], ''Expected literal '' @ ticked ''1'' @ '', but was '' @ ticked ''random'')]
   \<and> validate (Union [Literal (PStr ''1''), Literal (PStr ''2'')]) (JStr ''random'')
     \<noteq> validate (Literal (PStr ''1'')) (JStr ''random'')"
  by (simp add: quoted_def ticked_def)

text \<open>
  Claim C6, amended: for every union, the alternatives are tried in the order listed
  and the outcome is the one of the first alternative that accepts the input; when no
  alternative accepts it, the reason is
  \<open>Expected <summaries of all alternatives joined by |>, but was <type of the input>\<close>,
  not attributed to any field.
\<close>

theorem C6_union_first_match_and_reason:
  "validate (Union alts) x =
     (case find (\<lambda>d. is_Valid (validate d x)) alts of
        Some d \<Rightarrow> validate d x
      | None \<Rightarrow> Invalid [([], ''Expected '' @ summary_alts alts @ '', but was '' @ typeOf x)])"
  by (auto simp: first_match_find is_Valid_iff split: option.splits outcome.splits dest: find_Some_iff [THEN iffD1])


subsection \<open>C7: guards\<close>

text \<open>
  Claim C7: a guard accepts an input exactly when its predicate returns true; in every
  other case the reason is the fixed text \<open>Failed constraint check for unknown\<close>, and
  a predicate that throws gives the same outcome as one that returns false. For the
  body \<open>{email: test@random.com}\<close> this is the failure that the README records.
\<close>

theorem C7_guard:
  "validate (Guard p) x =
     (if p x = Some True then Valid x
      else Invalid [([], ''Failed constraint check for unknown'')])
   \<and> validate (Guard (\<lambda>v. None)) x = validate (Guard (\<lambda>v. Some False)) x
   \<and> validate PayloadRuntype (JObj [(''email'', JStr ''test@random.com'')])
       = Invalid [(''email'', ''Failed constraint check for unknown'')]"
  by (simp add: PayloadRuntype_def endsWith_def attribute_def split: option.splits bool.splits)


subsection \<open>C9: the valid request of the README\<close>

text \<open>
  Claim C9: for the body \<open>{email: test@gmail.com}\<close>, the query \<open>foo=bar\<close> and the
  path parameter \<open>id=1\<close>, all four handlers run and the response is status 200 with the
  body \<open>{payload: {email: test@gmail.com}, query: {foo: bar}, params: {id: 1}}\<close>.
\<close>

theorem C9_valid_request:
  "post_bar \<lparr>body = JObj [(''email'', JStr ''test@gmail.com'')],
             query = JObj [(''foo'', JStr ''bar'')],
             params = JObj [(''id'', JStr ''1'')]\<rparr>
     = (4, \<lparr>req = \<lparr>body = JObj [(''email'', JStr ''test@gmail.com'')],
                    query = JObj [(''foo'', JStr ''bar'')],
                    params = JObj [(''id'', JStr ''1'')]\<rparr>,
            res = \<lparr>statusCode = 200,
                   sent = Some (JObj
                     [(''payload'', JObj [(''email'', JStr ''test@gmail.com'')]),
                      (''query'', JObj [(''foo'', JStr ''bar'')]),
                      (''params'', JObj [(''id'', JStr ''1'')])])\<rparr>,
            console = [(''Received payload: '', JObj [(''email'', JStr ''test@gmail.com'')]),
                       (''Received query params: '', JObj [(''foo'', JStr ''bar'')]),
                       (''Received path params: '', JObj [(''id'', JStr ''1'')])]\<rparr>)"
  by (simp add: post_bar_cases accepted_def PayloadRuntype_def QueryParamRuntype_def
      PathParamRuntype_def endsWith_def)


subsection \<open>C10: what the guard of the body accepts\<close>

text \<open>
  Claim C10: \<open>isEmail\<close> accepts exactly the strings that end in \<open>@gmail.com\<close>, and the
  body descriptor accepts an object with the key \<open>email\<close> exactly when \<open>isEmail\<close>
  accepts its value. In particular the bare string \<open>@gmail.com\<close> is accepted, and a
  request with such a body passes the body stage.
\<close>

theorem C10_isEmail_suffix_only:
  "(isEmail x \<longleftrightarrow> (\<exists>local. x = JStr (local @ ''@gmail.com'')))
   \<and> (is_Valid (validate PayloadRuntype (JObj [(''email'', x)])) \<longleftrightarrow> isEmail x)
   \<and> isEmail (JStr ''@gmail.com'')
   \<and> validate PayloadRuntype (JObj [(''email'', JStr ''@gmail.com'')])
       = Valid (JObj [(''email'', JStr ''@gmail.com'')])
   \<and> bodyTypeParserMiddleware PayloadRuntype
        (incoming \<lparr>body = JObj [(''email'', JStr ''@gmail.com'')], query = q, params = p\<rparr>)
       = (Next, incoming \<lparr>body = JObj [(''email'', JStr ''@gmail.com'')], query = q, params = p\<rparr>)"
proof -
  have e: "isEmail (JStr ''@gmail.com'')" by (simp add: endsWith_def)
  have v: "validate PayloadRuntype (JObj [(''email'', JStr ''@gmail.com'')])
       = Valid (JObj [(''email'', JStr ''@gmail.com'')])"
    by (simp add: PayloadRuntype_def endsWith_def)
  have g: "is_Valid (validate PayloadRuntype (JObj [(''email'', x)])) \<longleftrightarrow> isEmail x"
    by (cases "isEmail x") (simp_all add: PayloadRuntype_def)
  from v have s: "bodyTypeParserMiddleware PayloadRuntype
        (incoming \<lparr>body = JObj [(''email'', JStr ''@gmail.com'')], query = q, params = p\<rparr>)
       = (Next, incoming \<lparr>body = JObj [(''email'', JStr ''@gmail.com'')], query = q, params = p\<rparr>)"
    by (simp add: body_stage req_incoming)
  from isEmail_iff e v g s show ?thesis by blast
qed

end
